theory Spec2Isabelle
  imports Complex_Main
begin

section \<open>JavaScript values\<close>

text \<open>
  The server handles untyped data (\<^verbatim>\<open>any\<close>): provider records and their fields. A value is
  modelled by the cases that the operators of the source distinguish. Numbers are rationals:
  every finite double is one, and the comparisons and the sign of a difference of two finite
  doubles agree with those of the exact values. \<open>JObject\<close> stands for any array or object,
  all of which are truthy.
\<close>

datatype jsval = JUndefined | JNull | JBool bool | JNum rat | JStr string | JObject

fun truthy :: "jsval \<Rightarrow> bool" where
  "truthy JUndefined = False"
| "truthy JNull = False"
| "truthy (JBool b) = b"
| "truthy (JNum n) = (n \<noteq> 0)"
| "truthy (JStr s) = (s \<noteq> [])"
| "truthy JObject = True"

text \<open>\<^verbatim>\<open>a || b\<close>: the left operand when it is truthy, the right one otherwise.\<close>

definition jsOr :: "jsval \<Rightarrow> jsval \<Rightarrow> jsval" where
  "jsOr a b = (if truthy a then a else b)"

section \<open>Listing normalizer\<close>

text \<open>
  A raw listing is an object read by property name; a property that is absent reads as
  \<open>JUndefined\<close>.
\<close>

type_synonym rawListing = "string \<Rightarrow> jsval"

record job =
  jobId :: jsval
  companyName :: jsval
  companyLogo :: jsval
  jobTitle :: jsval
  jobUrl :: jsval
  applyUrl :: jsval
  description :: jsval
  scrapedAt :: jsval

text \<open>
  \<^verbatim>\<open>normalizeJobData\<close> (server.ts, lines 110 to 122). The two effects of the source are
  parameters: \<open>uuid\<close> is the sequence of identifiers that successive calls of \<^verbatim>\<open>uuidv4()\<close>
  return, \<open>n\<close> counts the calls made so far and is returned updated (the call happens only
  when both \<^verbatim>\<open>id\<close> and \<^verbatim>\<open>jobId\<close> are falsy, as \<^verbatim>\<open>||\<close> short-circuits), and \<open>today\<close> is
  \<^verbatim>\<open>new Date().toISOString().split('T')[0]\<close>.
\<close>

definition normalizeJobData ::
  "(nat \<Rightarrow> string) \<Rightarrow> string \<Rightarrow> rawListing \<Rightarrow> nat \<Rightarrow> job \<times> nat" where
  "normalizeJobData uuid today rawJob n =
     (let given = jsOr (rawJob ''id'') (rawJob ''jobId'') in
      (\<lparr> jobId = (if truthy given then given else JStr (uuid n)),
          companyName = jsOr (rawJob ''companyName'') (jsOr (rawJob ''company'') (JStr ''Unknown Company'')),
          companyLogo = jsOr (rawJob ''companyLogo'') (jsOr (rawJob ''logo'') JNull),
          jobTitle = jsOr (rawJob ''title'') (jsOr (rawJob ''jobTitle'') (JStr ''Untitled Role'')),
          jobUrl = jsOr (rawJob ''url'') (jsOr (rawJob ''jobUrl'') (JStr '''')),
          applyUrl = jsOr (rawJob ''applyUrl'') (jsOr (rawJob ''url'') (JStr '''')),
          description = jsOr (rawJob ''description'') (jsOr (rawJob ''text'') (JStr '''')),
          scrapedAt = jsOr (rawJob ''postedAt'') (JStr today) \<rparr>,
       if truthy given then n else Suc n))"

text \<open>\<^verbatim>\<open>rawJobs.map(normalizeJobData)\<close>: the listings are normalized from left to right.\<close>

fun normalizeAll ::
  "(nat \<Rightarrow> string) \<Rightarrow> string \<Rightarrow> rawListing list \<Rightarrow> nat \<Rightarrow> job list \<times> nat" where
  "normalizeAll uuid today [] n = ([], n)"
| "normalizeAll uuid today (r # rs) n =
     (let (j, n1) = normalizeJobData uuid today r n;
          (js, n2) = normalizeAll uuid today rs n1
      in (j # js, n2))"

section \<open>Errors and the file system\<close>

text \<open>A thrown \<^verbatim>\<open>Error\<close> is its message. A function that can throw returns \<open>error + 'a\<close>.\<close>

datatype error = Error string

fun message :: "error \<Rightarrow> string" where
  "message (Error m) = m"

text \<open>
  The temporary directory maps a path to the bytes stored there. \<^verbatim>\<open>fs.readFileSync\<close> and
  \<^verbatim>\<open>fs.unlinkSync\<close> throw on a path that does not exist; on an existing path they succeed
  (permission and device errors are not modelled).
\<close>

type_synonym filesystem = "string \<rightharpoonup> string"

definition readFileSync :: "filesystem \<Rightarrow> string \<Rightarrow> error + string" where
  "readFileSync fs p =
     (case fs p of None \<Rightarrow> Inl (Error ''ENOENT: no such file or directory'') | Some b \<Rightarrow> Inr b)"

definition existsSync :: "filesystem \<Rightarrow> string \<Rightarrow> bool" where
  "existsSync fs p = (fs p \<noteq> None)"

definition unlinkSync :: "filesystem \<Rightarrow> string \<Rightarrow> error + filesystem" where
  "unlinkSync fs p =
     (case fs p of None \<Rightarrow> Inl (Error ''ENOENT: no such file or directory'')
      | Some b \<Rightarrow> Inr (fs(p := None)))"

section \<open>Text extractor\<close>

text \<open>\<^verbatim>\<open>String.prototype.includes\<close>: the pattern occurs somewhere in the string.\<close>

fun strIncludes :: "string \<Rightarrow> string \<Rightarrow> bool" where
  "strIncludes [] pat = (pat = [])"
| "strIncludes (c # cs) pat = (take (length pat) (c # cs) = pat \<or> strIncludes cs pat)"

text \<open>
  The three converters are libraries outside the repository, so they are parameters: each
  takes the bytes of the file and returns the text or throws. (\<^verbatim>\<open>mammoth\<close> is given the path
  and reads the same file.)
\<close>

record decoders =
  pdfParse :: "string \<Rightarrow> error + string"
  mammothExtractRawText :: "string \<Rightarrow> error + string"
  toStringUtf8 :: "string \<Rightarrow> error + string"

text \<open>The body of the \<^verbatim>\<open>try\<close> block of \<^verbatim>\<open>extractText\<close>: the converter is chosen by mime type.\<close>

definition decode :: "decoders \<Rightarrow> string \<Rightarrow> string \<Rightarrow> error + string" where
  "decode d mimeType buffer =
     (if mimeType = ''application/pdf'' then pdfParse d buffer
      else if strIncludes mimeType ''word'' \<or> strIncludes mimeType ''officedocument''
        then mammothExtractRawText d buffer
      else toStringUtf8 d buffer)"

text \<open>
  \<^verbatim>\<open>extractText\<close> (server.ts, lines 41 to 56). The file is read before the \<^verbatim>\<open>try\<close> block, so
  an error of the read propagates as it is; an error inside the block is replaced.
\<close>

definition extractText :: "decoders \<Rightarrow> filesystem \<Rightarrow> string \<Rightarrow> string \<Rightarrow> error + string" where
  "extractText d fs filePath mimeType =
     (case readFileSync fs filePath of
        Inl e \<Rightarrow> Inl e
      | Inr buffer \<Rightarrow>
          (case decode d mimeType buffer of
             Inl e \<Rightarrow> Inl (Error ''Failed to parse CV file.'')
           | Inr text \<Rightarrow> Inr text))"

section \<open>Request fields\<close>

text \<open>
  A string is the sequence of its UTF-8 bytes. \<^verbatim>\<open>parseInt\<close> with no radix: leading white
  space is skipped, then an optional sign, then an optional \<^verbatim>\<open>0x\<close> prefix that selects radix
  16, then the longest run of digits of the radix. No digit at all gives \<^verbatim>\<open>NaN\<close>, which is
  \<open>None\<close> here.

  White space is what ECMAScript counts as such, in its UTF-8 encoding: the one-byte
  characters U+0009 to U+000D and U+0020, the two-byte U+00A0, and the three-byte U+1680,
  U+2000 to U+200A, U+2028, U+2029, U+202F, U+205F, U+3000 and U+FEFF.
\<close>

definition isWhiteSpace1 :: "nat \<Rightarrow> bool" where
  "isWhiteSpace1 a = (a \<in> {9, 10, 11, 12, 13, 32})"

definition isWhiteSpace2 :: "nat \<Rightarrow> nat \<Rightarrow> bool" where
  "isWhiteSpace2 a b = (a = 194 \<and> b = 160)"

definition isWhiteSpace3 :: "nat \<Rightarrow> nat \<Rightarrow> nat \<Rightarrow> bool" where
  "isWhiteSpace3 a b c =
     ((a = 225 \<and> b = 154 \<and> c = 128)
      \<or> (a = 226 \<and> b = 128 \<and> (128 \<le> c \<and> c \<le> 138 \<or> c = 168 \<or> c = 169 \<or> c = 175))
      \<or> (a = 226 \<and> b = 129 \<and> c = 159)
      \<or> (a = 227 \<and> b = 128 \<and> c = 128)
      \<or> (a = 239 \<and> b = 187 \<and> c = 191))"

fun skipWhiteSpace :: "string \<Rightarrow> string" where
  "skipWhiteSpace (a # b # c # rest) =
     (if isWhiteSpace1 (of_char a) then skipWhiteSpace (b # c # rest)
      else if isWhiteSpace2 (of_char a) (of_char b) then skipWhiteSpace (c # rest)
      else if isWhiteSpace3 (of_char a) (of_char b) (of_char c) then skipWhiteSpace rest
      else a # b # c # rest)"
| "skipWhiteSpace [a, b] =
     (if isWhiteSpace1 (of_char a) then skipWhiteSpace [b]
      else if isWhiteSpace2 (of_char a) (of_char b) then []
      else [a, b])"
| "skipWhiteSpace [a] = (if isWhiteSpace1 (of_char a) then [] else [a])"
| "skipWhiteSpace [] = []"

definition digitValue :: "char \<Rightarrow> nat option" where
  "digitValue c =
     (let k = (of_char c :: nat) in
      if 48 \<le> k \<and> k \<le> 57 then Some (k - 48)
      else if 97 \<le> k \<and> k \<le> 122 then Some (k - 87)
      else if 65 \<le> k \<and> k \<le> 90 then Some (k - 55)
      else None)"

fun digitsPrefix :: "nat \<Rightarrow> string \<Rightarrow> nat list" where
  "digitsPrefix R [] = []"
| "digitsPrefix R (c # cs) =
     (case digitValue c of
        None \<Rightarrow> []
      | Some v \<Rightarrow> if v < R then v # digitsPrefix R cs else [])"

text \<open>
  The result of \<^verbatim>\<open>parseInt\<close> is a double: the integer that was read, rounded to 53
  significant bits, to the nearest and on a tie to the even one. Below \<open>2 ^ 53\<close> nothing is
  rounded. An integer that rounds to \<open>2 ^ 1024\<close> or more has no double and gives
  \<^verbatim>\<open>Infinity\<close>; the model writes \<open>2 ^ 1024\<close> for it (and \<open>- (2 ^ 1024)\<close> for \<^verbatim>\<open>-Infinity\<close>), a
  number beyond every finite double, so that \<^verbatim>\<open>Math.min\<close> and \<^verbatim>\<open>>=\<close> against finite doubles
  come out as in the source. (ECMAScript allows an engine to read the digits after the
  twentieth as zeros; the model rounds the exact integer.)
\<close>

fun bitLength :: "int \<Rightarrow> nat" where
  "bitLength n = (if n \<le> 0 then 0 else Suc (bitLength (n div 2)))"

declare bitLength.simps [simp del]

definition roundToDouble :: "int \<Rightarrow> int" where
  "roundToDouble n =
     (if n < 2 ^ 53 then n
      else
        (let e = bitLength n - 53;
             q = n div 2 ^ e;
             r = n mod 2 ^ e;
             h = 2 ^ (e - 1);
             q' = (if h < r \<or> (r = h \<and> odd q) then q + 1 else q);
             v = q' * 2 ^ e
         in if 2 ^ 1024 \<le> v then 2 ^ 1024 else v))"

definition parseInt :: "string \<Rightarrow> int option" where
  "parseInt inputString =
     (let s = skipWhiteSpace inputString;
          sgn = (case s of c # r \<Rightarrow> if c = CHR ''-'' then - 1 else 1 | [] \<Rightarrow> (1::int));
          s1 = (case s of c # r \<Rightarrow> if c = CHR ''-'' \<or> c = CHR ''+'' then r else s | [] \<Rightarrow> s);
          hex = (take 2 s1 = ''0x'' \<or> take 2 s1 = ''0X'');
          R = (if hex then 16 else 10);
          s2 = (if hex then drop 2 s1 else s1);
          z = digitsPrefix R s2
      in if z = [] then None
         else Some (sgn * roundToDouble (foldl (\<lambda>a v. a * int R + int v) 0 z)))"

text \<open>
  A field of the multipart form is a string, or absent; \<^verbatim>\<open>parseInt(undefined)\<close> is
  \<^verbatim>\<open>NaN\<close>.
\<close>

definition parseIntField :: "string option \<Rightarrow> int option" where
  "parseIntField f = (case f of None \<Rightarrow> None | Some s \<Rightarrow> parseInt s)"

text \<open>\<^verbatim>\<open>x || d\<close> on a number \<open>x\<close>: \<^verbatim>\<open>NaN\<close> and zero are falsy.\<close>

definition orNumber :: "int option \<Rightarrow> int \<Rightarrow> int" where
  "orNumber x d = (case x of None \<Rightarrow> d | Some n \<Rightarrow> if n = 0 then d else n)"

text \<open>\<^verbatim>\<open>a || b\<close> on optional strings: absent and the empty string are falsy.\<close>

definition orString :: "string option \<Rightarrow> string option \<Rightarrow> string option" where
  "orString a b = (case a of None \<Rightarrow> b | Some s \<Rightarrow> if s = [] then b else Some s)"

text \<open>The two numeric arguments that the endpoint computes (server.ts, lines 251 and 258).\<close>

definition maxItemsOf :: "string option \<Rightarrow> int" where
  "maxItemsOf maxJobs = orNumber (parseIntField maxJobs) 50"

definition thresholdOf :: "string option \<Rightarrow> int" where
  "thresholdOf scoreThreshold = orNumber (parseIntField scoreThreshold) 60"

section \<open>Listing source adapter\<close>

text \<open>
  The body of the start call (server.ts, lines 71 to 75) and the request that carries it.
  \<^verbatim>\<open>maxItems\<close> is the integer that the endpoint passes.
\<close>

record startBody =
  startUrls :: "string option list"
  maxItems :: int
  limit :: int

record startRequest =
  actorOf :: string
  tokenOf :: string
  bodyOf :: startBody

definition startRequestFor :: "string \<Rightarrow> string \<Rightarrow> string option \<Rightarrow> int \<Rightarrow> startRequest" where
  "startRequestFor actor token searchUrl maxItemsArg =
     \<lparr> actorOf = actor, tokenOf = token,
       bodyOf = \<lparr> startUrls = [searchUrl],
                  maxItems = min maxItemsArg 100,
                  limit = min maxItemsArg 100 \<rparr> \<rparr>"

text \<open>
  The provider is outside the repository. It answers the start call (run and dataset
  identifiers, a response that is not ok with its text, or a failure of the call or of reading
  its body), then a sequence of status polls, then the request for the items. The poll answers
  are listed in the order in which they arrive; when the list is used up, no further answer
  arrives and the adapter keeps waiting.
\<close>

datatype startAnswer = StartOk string string | StartNotOk string | StartThrew error

datatype pollAnswer = PollStatus string | PollThrew error

record provider =
  envToken :: "string option"
  envActor :: "string option"
  startRun :: "startRequest \<Rightarrow> startAnswer"
  pollAnswers :: "pollAnswer list"
  datasetItems :: "error + rawListing list"

text \<open>
  The polling loop (server.ts, lines 90 to 97): while the status is \<^verbatim>\<open>RUNNING\<close> or
  \<^verbatim>\<open>READY\<close>, wait once, then poll once. The result is the number of waits together with the
  status that ended the loop or the error thrown by a poll; \<open>None\<close> when the loop is still
  waiting after the last answer.
\<close>

definition nonTerminal :: "string \<Rightarrow> bool" where
  "nonTerminal status = (status = ''RUNNING'' \<or> status = ''READY'')"

fun pollLoop :: "string \<Rightarrow> pollAnswer list \<Rightarrow> nat \<Rightarrow> (nat \<times> (error + string)) option" where
  "pollLoop status [] delays =
     (if nonTerminal status then None else Some (delays, Inr status))"
| "pollLoop status (a # rest) delays =
     (if nonTerminal status then
        (case a of
           PollThrew e \<Rightarrow> Some (Suc delays, Inl e)
         | PollStatus s \<Rightarrow> pollLoop s rest (Suc delays))
      else Some (delays, Inr status))"

text \<open>
  \<^verbatim>\<open>scrapeLinkedInJobs\<close> (server.ts, lines 59 to 107). The result pairs the number of waits
  with the returned items or the thrown error.
\<close>

definition scrapeLinkedInJobs ::
  "provider \<Rightarrow> string option \<Rightarrow> int \<Rightarrow> string option \<Rightarrow> string option
     \<Rightarrow> (nat \<times> (error + rawListing list)) option" where
  "scrapeLinkedInJobs p searchUrl maxItemsArg apiToken actorSlug =
     (case orString apiToken (envToken p) of
        None \<Rightarrow> Some (0, Inl (Error
          ''Missing Apify API Token. Provide it in the UI settings or .env (APIFY_API_TOKEN).''))
      | Some token \<Rightarrow>
          if token = [] then Some (0, Inl (Error
            ''Missing Apify API Token. Provide it in the UI settings or .env (APIFY_API_TOKEN).''))
          else
            (let actor = (case orString actorSlug (envActor p) of
                            None \<Rightarrow> ''curious_coder~linkedin-jobs-scraper''
                          | Some a \<Rightarrow> if a = [] then ''curious_coder~linkedin-jobs-scraper'' else a)
             in case startRun p (startRequestFor actor token searchUrl maxItemsArg) of
                  StartThrew e \<Rightarrow> Some (0, Inl e)
                | StartNotOk err \<Rightarrow> Some (0, Inl (Error (''Apify start failed: '' @ err)))
                | StartOk runId defaultDatasetId \<Rightarrow>
                    (case pollLoop ''RUNNING'' (pollAnswers p) 0 of
                       None \<Rightarrow> None
                     | Some (delays, Inl e) \<Rightarrow> Some (delays, Inl e)
                     | Some (delays, Inr status) \<Rightarrow>
                         if status \<noteq> ''SUCCEEDED''
                         then Some (delays, Inl (Error (''Apify run failed with status: '' @ status)))
                         else Some (delays, datasetItems p))))"

section \<open>Profiling and scoring\<close>

record cvData =
  skills :: "string list"
  profileSummary :: string
  experienceHighlights :: "string list"

text \<open>
  The scoring prompt is a template around four values (server.ts, lines 165 to 185); the
  model keeps the four values. \<^verbatim>\<open>job.description.substring(0, 3000)\<close> throws when the
  description is not a string.
\<close>

record scoringPrompt =
  candidateSkills :: "string list"
  candidateSummary :: string
  promptJobTitle :: jsval
  promptJobDescription :: string

definition createScoringPrompt :: "cvData \<Rightarrow> job \<Rightarrow> error + scoringPrompt" where
  "createScoringPrompt cv j =
     (case description j of
        JStr d \<Rightarrow> Inr \<lparr> candidateSkills = skills cv, candidateSummary = profileSummary cv,
                       promptJobTitle = jobTitle j, promptJobDescription = take 3000 d \<rparr>
      | _ \<Rightarrow> Inl (Error ''job.description.substring is not a function''))"

text \<open>
  The completion service is outside the repository. Both calls declare a response schema, so
  a reply that parses is an object of that schema: a profile, or a result whose \<^verbatim>\<open>score\<close> is a
  number and whose \<^verbatim>\<open>verdict\<close> is a string, each of them possibly absent. \<open>Inl\<close> is any
  exception of the call or of \<^verbatim>\<open>JSON.parse\<close> on its text. Within one request the reply is a
  function of the prompt.
\<close>

datatype scoreResult = ScoreResult "rat option" "string option"

record completionService =
  generateProfile :: "string \<Rightarrow> error + cvData"
  generateScore :: "scoringPrompt \<Rightarrow> error + scoreResult"

record scoredJob = job +
  score :: rat
  verdict :: "string option"

text \<open>
  The function mapped over a chunk (server.ts, lines 194 to 220): the scored job, or
  \<^verbatim>\<open>null\<close> (\<open>None\<close>) when the score is absent or below the threshold and when anything in the
  \<^verbatim>\<open>try\<close> block throws.
\<close>

definition scoreJob :: "completionService \<Rightarrow> cvData \<Rightarrow> rat \<Rightarrow> job \<Rightarrow> scoredJob option" where
  "scoreJob svc cv threshold j =
     (case createScoringPrompt cv j of
        Inl e \<Rightarrow> None
      | Inr prompt \<Rightarrow>
          (case generateScore svc prompt of
             Inl e \<Rightarrow> None
           | Inr (ScoreResult s v) \<Rightarrow>
               (case s of
                  None \<Rightarrow> None
                | Some x \<Rightarrow>
                    if x \<ge> threshold then Some (job.extend j (scoredJob.fields x v))
                    else None)))"

text \<open>
  \<^verbatim>\<open>chunkArray\<close> (server.ts, lines 188 and 189). With size \<open>0\<close> and a non-empty array the
  recursion of the source never ends; \<open>None\<close> is that case.
\<close>

partial_function (option) chunkArray :: "'a list \<Rightarrow> nat \<Rightarrow> 'a list list option" where
  "chunkArray arr sz =
     (if length arr > sz
      then Option.bind (chunkArray (drop sz arr) sz) (\<lambda>rest. Some (take sz arr # rest))
      else Some [arr])"

declare chunkArray.simps [code]

text \<open>\<^verbatim>\<open>results.filter(r => r !== null)\<close>.\<close>

fun nonNull :: "'a option list \<Rightarrow> 'a list" where
  "nonNull [] = []"
| "nonNull (None # rs) = nonNull rs"
| "nonNull (Some r # rs) = r # nonNull rs"

text \<open>
  The loop over the chunks (server.ts, lines 193 to 224): the calls of one chunk are awaited
  together, and what they return, without the nulls, is appended to \<^verbatim>\<open>scoredJobs\<close>.
\<close>

fun scoreChunks :: "(job \<Rightarrow> scoredJob option) \<Rightarrow> job list list \<Rightarrow> scoredJob list \<Rightarrow> scoredJob list" where
  "scoreChunks f [] scoredJobs = scoredJobs"
| "scoreChunks f (chunk # chunks) scoredJobs =
     scoreChunks f chunks (scoredJobs @ nonNull (map f chunk))"

text \<open>
  \<^verbatim>\<open>Array.prototype.sort\<close> with a comparator is stable: an element moves behind another one
  only when the comparator is positive on them. Insertion from the right computes that order.
\<close>

definition compareScore :: "scoredJob \<Rightarrow> scoredJob \<Rightarrow> rat" where
  "compareScore a b = score b - score a"

fun insertSorted :: "('a \<Rightarrow> 'a \<Rightarrow> rat) \<Rightarrow> 'a \<Rightarrow> 'a list \<Rightarrow> 'a list" where
  "insertSorted cmp x [] = [x]"
| "insertSorted cmp x (y # ys) =
     (if cmp x y \<le> 0 then x # y # ys else y # insertSorted cmp x ys)"

definition arraySort :: "('a \<Rightarrow> 'a \<Rightarrow> rat) \<Rightarrow> 'a list \<Rightarrow> 'a list" where
  "arraySort cmp xs = foldr (insertSorted cmp) xs []"

record analyzedResponse = cvData +
  jobs :: "scoredJob list"

text \<open>
  \<^verbatim>\<open>analyzeCvAndJobs\<close> (server.ts, lines 125 to 230). A failure of the profile call is thrown
  to the caller; \<open>None\<close> is a call that does not return.
\<close>

definition analyzeCvAndJobs ::
  "completionService \<Rightarrow> string \<Rightarrow> job list \<Rightarrow> rat \<Rightarrow> (error + analyzedResponse) option" where
  "analyzeCvAndJobs svc cvText jobList threshold =
     (case generateProfile svc (take 10000 cvText) of
        Inl e \<Rightarrow> Some (Inl e)
      | Inr cv \<Rightarrow>
          (case chunkArray jobList 5 of
             None \<Rightarrow> None
           | Some chunks \<Rightarrow>
               Some (Inr (cvData.extend cv (analyzedResponse.fields
                 (arraySort compareScore (scoreChunks (scoreJob svc cv threshold) chunks [])))))))"

section \<open>The analysis endpoint\<close>

record upload =
  path :: string
  mimetype :: string

record analyzeRequest =
  cvFile :: "upload option"
  searchUrl :: "string option"
  maxJobs :: "string option"
  scoreThreshold :: "string option"
  apifyToken :: "string option"
  apifyActor :: "string option"

record services =
  converters :: decoders
  listingProvider :: provider
  completion :: completionService
  uuidv4 :: "nat \<Rightarrow> string"
  today :: string

text \<open>What the handler does that can be seen from outside: it removes a file, it sends a response.\<close>

datatype body = ErrorBody string | AnalysisBody analyzedResponse

datatype event = Unlinked string | Sent nat body

text \<open>Steps 1 to 3 of the \<^verbatim>\<open>try\<close> block (server.ts, lines 243 to 259).\<close>

definition pipeline ::
  "services \<Rightarrow> filesystem \<Rightarrow> upload \<Rightarrow> analyzeRequest \<Rightarrow> (error + analyzedResponse) option" where
  "pipeline sv fs f req =
     (case extractText (converters sv) fs (path f) (mimetype f) of
        Inl e \<Rightarrow> Some (Inl e)
      | Inr cvText \<Rightarrow>
          (case scrapeLinkedInJobs (listingProvider sv) (searchUrl req)
                  (maxItemsOf (maxJobs req)) (apifyToken req) (apifyActor req) of
             None \<Rightarrow> None
           | Some (delays, Inl e) \<Rightarrow> Some (Inl e)
           | Some (delays, Inr rawJobs) \<Rightarrow>
               analyzeCvAndJobs (completion sv) cvText
                 (fst (normalizeAll (uuidv4 sv) (today sv) rawJobs 0))
                 (of_int (thresholdOf (scoreThreshold req)))))"

text \<open>
  The \<^verbatim>\<open>catch\<close> block (server.ts, lines 266 to 270). An error thrown inside it leaves the
  handler without a response.
\<close>

definition catchBlock :: "filesystem \<Rightarrow> upload \<Rightarrow> error \<Rightarrow> filesystem \<times> event list" where
  "catchBlock fs f e =
     (if existsSync fs (path f) then
        (case unlinkSync fs (path f) of
           Inl e' \<Rightarrow> (fs, [])
         | Inr fs' \<Rightarrow> (fs', [Unlinked (path f), Sent 502 (ErrorBody (message e))]))
      else (fs, [Sent 502 (ErrorBody (message e))]))"

text \<open>
  The handler of \<^verbatim>\<open>POST /api/analyze\<close> (server.ts, lines 234 to 271): the file system after
  the request and the events in their order; \<open>None\<close> when the handler never gets to respond.
\<close>

definition analyzeEndpoint ::
  "services \<Rightarrow> filesystem \<Rightarrow> analyzeRequest \<Rightarrow> (filesystem \<times> event list) option" where
  "analyzeEndpoint sv fs req =
     (case cvFile req of
        None \<Rightarrow> Some (fs, [Sent 400 (ErrorBody ''No CV file uploaded.'')])
      | Some f \<Rightarrow>
          (case pipeline sv fs f req of
             None \<Rightarrow> None
           | Some (Inl e) \<Rightarrow> Some (catchBlock fs f e)
           | Some (Inr analysisResult) \<Rightarrow>
               (case unlinkSync fs (path f) of
                  Inl e \<Rightarrow> Some (catchBlock fs f e)
                | Inr fs' \<Rightarrow>
                    Some (fs', [Unlinked (path f), Sent 200 (AnalysisBody analysisResult)]))))"



section \<open>Sample inputs\<close>

text \<open>Concrete providers, services and listings on which the theorems below are instantiated.\<close>

definition sampleUuid :: "nat \<Rightarrow> string" where
  "sampleUuid n = replicate (Suc n) CHR ''u''"

definition emptyListing :: rawListing where
  "emptyListing = (\<lambda>k. JUndefined)"

definition listingWithId :: "string \<Rightarrow> string \<Rightarrow> rawListing" where
  "listingWithId i d = emptyListing(''id'' := JStr i, ''description'' := JStr d)"

definition listingWithJobUrl :: rawListing where
  "listingWithJobUrl = emptyListing(''jobUrl'' := JStr ''https://jobs.example/42'')"

definition sampleJob :: "string \<Rightarrow> string \<Rightarrow> job" where
  "sampleJob i d =
     \<lparr> jobId = JStr i, companyName = JStr ''Unknown Company'', companyLogo = JNull,
       jobTitle = JStr ''Untitled Role'', jobUrl = JStr [], applyUrl = JStr [],
       description = JStr d, scrapedAt = JStr ''2026-01-01'' \<rparr>"

definition sampleProfile :: cvData where
  "sampleProfile = \<lparr> skills = [''Go''], profileSummary = ''Senior Go engineer'',
                     experienceHighlights = [] \<rparr>"

text \<open>
  A completion service that fails on the description \<^verbatim>\<open>down\<close>, scores \<^verbatim>\<open>good\<close> at 90,
  \<^verbatim>\<open>fair\<close> at 75 and everything else at 40.
\<close>

definition sampleCompletion :: completionService where
  "sampleCompletion =
     \<lparr> generateProfile = (\<lambda>t. Inr sampleProfile),
       generateScore = (\<lambda>p.
         if promptJobDescription p = ''down'' then Inl (Error ''503 Service Unavailable'')
         else if promptJobDescription p = ''good'' then Inr (ScoreResult (Some 90) (Some ''fits''))
         else if promptJobDescription p = ''fair'' then Inr (ScoreResult (Some 75) None)
         else Inr (ScoreResult (Some 40) None)) \<rparr>"

definition sampleProvider :: "pollAnswer list \<Rightarrow> provider" where
  "sampleProvider polls =
     \<lparr> envToken = Some ''token'', envActor = None,
       startRun = (\<lambda>r. StartOk ''run1'' ''dataset1''),
       pollAnswers = polls,
       datasetItems = Inr [listingWithId ''a'' ''fair'', listingWithId ''b'' ''good''] \<rparr>"


definition sampleDecoders :: "(error + string) \<Rightarrow> decoders" where
  "sampleDecoders r =
     \<lparr> pdfParse = (\<lambda>b. r), mammothExtractRawText = (\<lambda>b. r), toStringUtf8 = (\<lambda>b. Inr b) \<rparr>"

definition sampleServices :: "(error + string) \<Rightarrow> services" where
  "sampleServices r =
     \<lparr> converters = sampleDecoders r,
       listingProvider = sampleProvider [PollStatus ''SUCCEEDED''],
       completion = sampleCompletion,
       uuidv4 = sampleUuid,
       today = ''2026-01-01'' \<rparr>"

definition sampleRequest :: analyzeRequest where
  "sampleRequest =
     \<lparr> cvFile = Some \<lparr> path = ''temp/cv1'', mimetype = ''application/pdf'' \<rparr>,
       searchUrl = Some ''https://www.linkedin.com/jobs/search?keywords=go'',
       maxJobs = Some ''500'', scoreThreshold = Some ''60'',
       apifyToken = None, apifyActor = None \<rparr>"

definition sampleFiles :: filesystem where
  "sampleFiles = [''temp/cv1'' \<mapsto> ''%PDF-1.4'']"

text \<open>
  A request that supplies the threshold 0, and services whose provider returns one listing
  that the sample service scores at 75 and one that it scores at 40.
\<close>

definition zeroThresholdRequest :: analyzeRequest where
  "zeroThresholdRequest = sampleRequest\<lparr>scoreThreshold := Some ''0''\<rparr>"

definition lowScoreServices :: services where
  "lowScoreServices =
     \<lparr> converters = sampleDecoders (Inr ''Senior Go engineer''),
       listingProvider = (sampleProvider [PollStatus ''SUCCEEDED''])
         \<lparr>datasetItems := Inr [listingWithId ''a'' ''fair'', listingWithId ''c'' ''poor'']\<rparr>,
       completion = sampleCompletion,
       uuidv4 = sampleUuid,
       today = ''2026-01-01'' \<rparr>"

definition sampleJobs :: "job list" where
  "sampleJobs =
     [sampleJob ''1'' ''fair'', sampleJob ''2'' ''down'', sampleJob ''3'' ''poor'',
      sampleJob ''4'' ''good'', sampleJob ''5'' ''fair'', sampleJob ''6'' ''good'',
      sampleJob ''7'' ''good'']"

section \<open>Facts about the scoring loop\<close>

text \<open>With a positive size \<^verbatim>\<open>chunkArray\<close> returns, and its chunks put together are the array.\<close>

lemma chunkArray_returns:
  "0 < sz \<Longrightarrow> \<exists>cs. chunkArray arr sz = Some cs \<and> concat cs = arr"
proof (induction arr rule: length_induct)
  case (1 arr)
  show ?case
  proof (cases "sz < length arr")
    case True
    with 1 have "length (drop sz arr) < length arr" by simp
    with 1 obtain cs where cs: "chunkArray (drop sz arr) sz = Some cs" "concat cs = drop sz arr"
      by blast
    have "chunkArray arr sz = Some (take sz arr # cs)"
      using True cs(1) by (subst chunkArray.simps) simp
    with cs(2) show ?thesis by simp
  next
    case False
    then have "chunkArray arr sz = Some [arr]"
      by (subst chunkArray.simps) simp
    then show ?thesis by simp
  qed
qed

lemma nonNull_append: "nonNull (xs @ ys) = nonNull xs @ nonNull ys"
  by (induction xs rule: nonNull.induct) simp_all

lemma set_nonNull: "set (nonNull xs) = {r. Some r \<in> set xs}"
  by (induction xs rule: nonNull.induct) auto

lemma scoreChunks_concat:
  "scoreChunks f chunks acc = acc @ nonNull (map f (concat chunks))"
  by (induction chunks arbitrary: acc) (simp_all add: nonNull_append)

lemma set_insertSorted: "set (insertSorted cmp x ys) = insert x (set ys)"
  by (induction ys) auto

lemma set_arraySort: "set (arraySort cmp xs) = set xs"
  by (induction xs) (simp_all add: arraySort_def set_insertSorted)

lemma sorted_insertSorted:
  "sorted_wrt (\<lambda>a b. score b \<le> score a) ys \<Longrightarrow>
   sorted_wrt (\<lambda>a b. score b \<le> score a) (insertSorted compareScore x ys)"
  by (induction ys) (auto simp: set_insertSorted compareScore_def)

lemma sorted_arraySort:
  "sorted_wrt (\<lambda>a b. score b \<le> score a) (arraySort compareScore xs)"
  by (induction xs) (simp_all add: arraySort_def sorted_insertSorted)

lemma jobs_extend: "jobs (cvData.extend cv (analyzedResponse.fields js)) = js"
  by (simp add: cvData.extend_def analyzedResponse.fields_def)

text \<open>
  Once the profile is there the analysis returns, and the jobs of its response are the
  scored jobs of the whole input, in the order of the sort: the chunking has no effect on
  the result.
\<close>

lemma analyze_returns:
  assumes "generateProfile svc (take 10000 cvText) = Inr cv"
  shows "analyzeCvAndJobs svc cvText jobList T =
         Some (Inr (cvData.extend cv (analyzedResponse.fields
           (arraySort compareScore (nonNull (map (scoreJob svc cv T) jobList))))))"
proof -
  obtain cs where cs: "chunkArray jobList 5 = Some cs" "concat cs = jobList"
    using chunkArray_returns [of 5 jobList] by auto
  show ?thesis
    using assms cs by (simp add: analyzeCvAndJobs_def scoreChunks_concat)
qed

lemma analyze_Inr:
  assumes "analyzeCvAndJobs svc cvText jobList T = Some (Inr resp)"
  shows "\<exists>cv. generateProfile svc (take 10000 cvText) = Inr cv \<and>
     jobs resp = arraySort compareScore (nonNull (map (scoreJob svc cv T) jobList))"
proof (cases "generateProfile svc (take 10000 cvText)")
  case (Inl e)
  with assms show ?thesis by (simp add: analyzeCvAndJobs_def)
next
  case (Inr cv)
  from analyze_returns [OF Inr, of jobList T] assms show ?thesis
    using Inr by (auto simp: jobs_extend)
qed

lemma scoreJob_Some:
  assumes "scoreJob svc cv T j = Some s"
  shows "T \<le> score s \<and> job.truncate s = j"
  using assms
  by (auto simp: scoreJob_def job.extend_def job.truncate_def scoredJob.fields_def
      split: sum.splits scoreResult.splits option.splits if_splits)

lemma scoreJob_below:
  assumes "createScoringPrompt cv j = Inr p" "generateScore svc p = Inr (ScoreResult (Some x) v)"
    and "x < T"
  shows "scoreJob svc cv T j = None"
  using assms by (simp add: scoreJob_def)


lemma sample_profile:
  "generateProfile sampleCompletion (take 10000 ''Senior Go engineer, 8 years'') = Inr sampleProfile"
  by (simp add: sampleCompletion_def)

lemma sample_sorted_scores:
  "map score (arraySort compareScore
     (nonNull (map (scoreJob sampleCompletion sampleProfile 60) sampleJobs))) =
   [90, 90, 90, 75, 75]"
  by (simp add: sampleJobs_def sampleJob_def scoreJob_def createScoringPrompt_def
      sampleCompletion_def job.extend_def scoredJob.fields_def arraySort_def compareScore_def)

section \<open>The threshold filter\<close>

text \<open>
  Claim C1. For every threshold \<open>T\<close> passed to the analysis, every job of the returned
  response has a score of at least \<open>T\<close> and comes from a job of the input. A job that the
  scorer scored below \<open>T\<close> is dropped: no job of the response is that job with a score
  attached, flagged or not.
\<close>

theorem response_jobs_meet_threshold:
  assumes "analyzeCvAndJobs svc cvText jobList T = Some (Inr resp)"
  shows "(\<forall>s \<in> set (jobs resp). T \<le> score s \<and> job.truncate s \<in> set jobList) \<and>
         (\<forall>j \<in> set jobList. \<forall>cv p x v.
            generateProfile svc (take 10000 cvText) = Inr cv \<longrightarrow>
            createScoringPrompt cv j = Inr p \<longrightarrow>
            generateScore svc p = Inr (ScoreResult (Some x) v) \<longrightarrow>
            x < T \<longrightarrow> j \<notin> job.truncate ` set (jobs resp))"
proof -
  from analyze_Inr [OF assms] obtain cv where
    cv: "generateProfile svc (take 10000 cvText) = Inr cv" and
    js: "jobs resp = arraySort compareScore (nonNull (map (scoreJob svc cv T) jobList))"
    by blast
  have mem: "\<exists>j \<in> set jobList. scoreJob svc cv T j = Some s" if "s \<in> set (jobs resp)" for s
    using that by (auto simp: js set_arraySort set_nonNull)
  have kept: "T \<le> score s \<and> job.truncate s \<in> set jobList" if "s \<in> set (jobs resp)" for s
    using mem [OF that] scoreJob_Some by blast
  have dropped: "j \<notin> job.truncate ` set (jobs resp)"
    if "j \<in> set jobList" "generateProfile svc (take 10000 cvText) = Inr cv'"
      "createScoringPrompt cv' j = Inr p"
      "generateScore svc p = Inr (ScoreResult (Some x) v)" "x < T" for j cv' p x v
  proof
    assume "j \<in> job.truncate ` set (jobs resp)"
    then obtain s where s: "s \<in> set (jobs resp)" "job.truncate s = j" by blast
    from mem [OF s(1)] obtain j' where j': "scoreJob svc cv T j' = Some s" by blast
    with scoreJob_Some s(2) have "j' = j" by blast
    moreover from that cv have "cv' = cv" by simp
    ultimately show False
      using j' scoreJob_below [of cv j p svc x v T] that by simp
  qed
  from kept dropped show ?thesis by blast
qed

text \<open>
  On the seven sample jobs with threshold 60: the job scored 40 and the job whose scoring
  fails are gone, the other five are returned.
\<close>

theorem response_jobs_meet_threshold_witness:
  "\<exists>resp. analyzeCvAndJobs sampleCompletion ''Senior Go engineer, 8 years'' sampleJobs 60
             = Some (Inr resp)
     \<and> map score (jobs resp) = [90, 90, 90, 75, 75]
     \<and> (\<forall>s \<in> set (jobs resp). 60 \<le> score s)"
proof -
  note run = analyze_returns [OF sample_profile, of sampleJobs 60]
  from response_jobs_meet_threshold [OF run]
  have "\<forall>s \<in> set (jobs (cvData.extend sampleProfile (analyzedResponse.fields
           (arraySort compareScore
              (nonNull (map (scoreJob sampleCompletion sampleProfile 60) sampleJobs)))))).
          60 \<le> score s"
    by blast
  with run sample_sorted_scores show ?thesis by (simp add: jobs_extend)
qed

section \<open>Failures of single scoring calls\<close>



section \<open>The order of the response\<close>

text \<open>
  Claim C3. The jobs of every response are sorted by score, non-increasingly: each job has
  a score no greater than that of every job before it. Nothing is said about jobs of equal
  score.
\<close>

theorem response_jobs_sorted:
  assumes "analyzeCvAndJobs svc cvText jobList T = Some (Inr resp)"
  shows "sorted_wrt (\<lambda>a b. score b \<le> score a) (jobs resp)"
proof -
  from analyze_Inr [OF assms] obtain cv where
    "jobs resp = arraySort compareScore (nonNull (map (scoreJob svc cv T) jobList))"
    by blast
  then show ?thesis by (simp add: sorted_arraySort)
qed

theorem response_jobs_sorted_witness:
  "\<exists>resp. analyzeCvAndJobs sampleCompletion ''Senior Go engineer, 8 years'' sampleJobs 60
             = Some (Inr resp)
     \<and> map score (jobs resp) = [90, 90, 90, 75, 75]
     \<and> sorted_wrt (\<lambda>a b. score b \<le> score a) (jobs resp)"
proof -
  note run = analyze_returns [OF sample_profile, of sampleJobs 60]
  from response_jobs_sorted [OF run] run sample_sorted_scores
  show ?thesis by (simp add: jobs_extend)
qed

section \<open>Identifiers of normalized jobs\<close>

lemma normalizeJobData_jobId:
  "jobId (fst (normalizeJobData uuid day r n)) =
     (if truthy (jsOr (r ''id'') (r ''jobId'')) then jsOr (r ''id'') (r ''jobId'')
      else JStr (uuid n))"
  by (simp add: normalizeJobData_def Let_def)

lemma normalizeJobData_counter:
  "snd (normalizeJobData uuid day r n) =
     (if truthy (jsOr (r ''id'') (r ''jobId'')) then n else Suc n)"
  by (simp add: normalizeJobData_def Let_def)

lemma normalizeAll_Cons:
  "fst (normalizeAll uuid day (r # rs) n) =
     fst (normalizeJobData uuid day r n) #
     fst (normalizeAll uuid day rs (snd (normalizeJobData uuid day r n)))"
  by (simp add: split_beta Let_def)

lemma normalizeAll_jobIds:
  "set (map jobId (fst (normalizeAll uuid day rs n))) \<subseteq>
     {g. \<exists>r \<in> set rs. g = jsOr (r ''id'') (r ''jobId'') \<and> truthy g} \<union> JStr ` uuid ` {n..}"
proof (induction rs arbitrary: n)
  case Nil
  then show ?case by simp
next
  case (Cons r rs)
  let ?n1 = "snd (normalizeJobData uuid day r n)"
  have "n \<le> ?n1" by (simp add: normalizeJobData_counter)
  then have "JStr ` uuid ` {?n1..} \<subseteq> JStr ` uuid ` {n..}" by auto
  with Cons [of ?n1] show ?case
    unfolding normalizeAll_Cons
    by (auto simp: normalizeJobData_jobId)
qed

text \<open>
  Claim C4, as amended. The normalizer keeps the identifier that a listing provides and
  does not compare identifiers, so two listings with the same identifier give two jobs with
  the same \<^verbatim>\<open>jobId\<close>. What holds: when the identifiers that \<^verbatim>\<open>uuidv4\<close> returns are pairwise
  distinct, the provided identifiers are pairwise distinct and none of them is one of the
  generated ones, then the \<^verbatim>\<open>jobId\<close>s of the normalized jobs are pairwise distinct. In
  particular this is so when no listing provides an identifier.
\<close>

theorem normalized_jobIds_distinct:
  assumes "inj uuid"
    and "distinct (filter truthy (map (\<lambda>r. jsOr (r ''id'') (r ''jobId'')) raws))"
    and "\<forall>r \<in> set raws. truthy (jsOr (r ''id'') (r ''jobId'')) \<longrightarrow>
           jsOr (r ''id'') (r ''jobId'') \<notin> JStr ` range uuid"
  shows "distinct (map jobId (fst (normalizeAll uuid day raws n)))"
  using assms(2,3)
proof (induction raws arbitrary: n)
  case Nil
  then show ?case by simp
next
  case (Cons r rs)
  let ?g = "jsOr (r ''id'') (r ''jobId'')"
  let ?n1 = "snd (normalizeJobData uuid day r n)"
  have rest: "distinct (map jobId (fst (normalizeAll uuid day rs ?n1)))"
    using Cons by (auto split: if_splits)
  have new: "jobId (fst (normalizeJobData uuid day r n)) \<notin>
             set (map jobId (fst (normalizeAll uuid day rs ?n1)))"
  proof (cases "truthy ?g")
    case True
    then have n1: "?n1 = n" and jid: "jobId (fst (normalizeJobData uuid day r n)) = ?g"
      by (simp_all add: normalizeJobData_counter normalizeJobData_jobId)
    from True Cons.prems have a: "?g \<notin> JStr ` range uuid"
      and b: "?g \<notin> {g. \<exists>r' \<in> set rs. g = jsOr (r' ''id'') (r' ''jobId'') \<and> truthy g}"
      by auto
    from a have "?g \<notin> JStr ` uuid ` {?n1..}" by auto
    with b normalizeAll_jobIds [of uuid day rs ?n1] show ?thesis
      unfolding jid by blast
  next
    case False
    then have n1: "?n1 = Suc n" and jid: "jobId (fst (normalizeJobData uuid day r n)) = JStr (uuid n)"
      by (simp_all add: normalizeJobData_counter normalizeJobData_jobId)
    have a: "JStr (uuid n) \<notin> JStr ` uuid ` {Suc n..}"
    proof
      assume "JStr (uuid n) \<in> JStr ` uuid ` {Suc n..}"
      then obtain m where "uuid n = uuid m" "Suc n \<le> m" by auto
      with assms(1) show False by (auto dest: injD)
    qed
    have b: "JStr (uuid n) \<notin> {g. \<exists>r' \<in> set rs. g = jsOr (r' ''id'') (r' ''jobId'') \<and> truthy g}"
    proof
      assume "JStr (uuid n) \<in>
              {g. \<exists>r' \<in> set rs. g = jsOr (r' ''id'') (r' ''jobId'') \<and> truthy g}"
      then obtain r' where r': "r' \<in> set rs" "jsOr (r' ''id'') (r' ''jobId'') = JStr (uuid n)"
        "truthy (jsOr (r' ''id'') (r' ''jobId''))"
        by auto
      from Cons.prems(2) r'(1,3) have "jsOr (r' ''id'') (r' ''jobId'') \<notin> JStr ` range uuid"
        by simp
      with r'(2) show False by simp
    qed
    from a b normalizeAll_jobIds [of uuid day rs ?n1] show ?thesis
      unfolding jid n1 by blast
  qed
  from rest new show ?case
    unfolding normalizeAll_Cons by simp
qed

lemma inj_sampleUuid: "inj sampleUuid"
  by (simp add: inj_def sampleUuid_def)

theorem normalized_jobIds_distinct_witness:
  "distinct (map jobId (fst (normalizeAll sampleUuid ''2026-01-01''
      [emptyListing, listingWithId ''a'' ''fair'', emptyListing] 0)))
   \<and> map jobId (fst (normalizeAll sampleUuid ''2026-01-01''
      [emptyListing, listingWithId ''a'' ''fair'', emptyListing] 0)) = [JStr ''u'', JStr ''a'', JStr ''uu'']"
proof -
  have d: "distinct (filter truthy (map (\<lambda>r. jsOr (r ''id'') (r ''jobId''))
             [emptyListing, listingWithId ''a'' ''fair'', emptyListing]))"
    by (simp add: emptyListing_def listingWithId_def jsOr_def)
  have o: "\<forall>r \<in> set [emptyListing, listingWithId ''a'' ''fair'', emptyListing].
             truthy (jsOr (r ''id'') (r ''jobId'')) \<longrightarrow>
             jsOr (r ''id'') (r ''jobId'') \<notin> JStr ` range sampleUuid"
    by (auto simp: emptyListing_def listingWithId_def jsOr_def sampleUuid_def)
  have v: "map jobId (fst (normalizeAll sampleUuid ''2026-01-01''
      [emptyListing, listingWithId ''a'' ''fair'', emptyListing] 0)) = [JStr ''u'', JStr ''a'', JStr ''uu'']"
    by (simp add: normalizeJobData_def emptyListing_def listingWithId_def jsOr_def sampleUuid_def)
  from normalized_jobIds_distinct [OF inj_sampleUuid d o, of "''2026-01-01''" 0] v
  show ?thesis by simp
qed

text \<open>
  Claim C4 as stated fails: two listings that both provide the identifier \<^verbatim>\<open>a\<close> are
  normalized to two jobs with the same \<^verbatim>\<open>jobId\<close>.
\<close>

theorem duplicate_ids_counterexample:
  "\<not> distinct (map jobId (fst (normalizeAll sampleUuid ''2026-01-01''
        [listingWithId ''a'' ''fair'', listingWithId ''a'' ''good''] 0)))"
  by (simp add: normalizeJobData_def emptyListing_def listingWithId_def jsOr_def)

section \<open>The apply URL of a normalized job\<close>

text \<open>
  Claim C5. A listing with no \<^verbatim>\<open>applyUrl\<close> should get the job URL as its apply URL, and the
  comment in the source says so (``Fallback to job url''). The fallback reads only the key
  \<^verbatim>\<open>url\<close>: for a listing whose job URL is under the alias \<^verbatim>\<open>jobUrl\<close> the job URL is resolved
  and the apply URL is the empty string.
\<close>

theorem applyUrl_misses_jobUrl_alias:
  "jobUrl (fst (normalizeJobData sampleUuid ''2026-01-01'' listingWithJobUrl 0)) =
     JStr ''https://jobs.example/42''
   \<and> applyUrl (fst (normalizeJobData sampleUuid ''2026-01-01'' listingWithJobUrl 0)) = JStr []"
  by (simp add: normalizeJobData_def emptyListing_def listingWithJobUrl_def jsOr_def)

section \<open>Polling the run status\<close>

lemma pollLoop_statuses:
  assumes "\<forall>s \<in> set pre. nonTerminal s" "\<not> nonTerminal t" "nonTerminal s0"
  shows "pollLoop s0 (map PollStatus (pre @ [t]) @ rest) d = Some (Suc (d + length pre), Inr t)"
  using assms
proof (induction pre arbitrary: s0 d)
  case Nil
  then show ?case by (cases rest) simp_all
next
  case (Cons s pre)
  then show ?case by simp
qed

text \<open>
  Claim C6, as amended. The adapter starts from the status \<^verbatim>\<open>RUNNING\<close> without having
  polled, and then waits once before every poll while the status is \<^verbatim>\<open>RUNNING\<close> or
  \<^verbatim>\<open>READY\<close>. When the polls return the statuses \<open>pre\<close>, all of them non-terminal, and then
  the terminal status \<open>t\<close>, the adapter has waited once per poll, \<open>length pre + 1\<close> times: it
  returns the dataset items when \<open>t\<close> is \<^verbatim>\<open>SUCCEEDED\<close> and throws an error that carries \<open>t\<close>
  otherwise. So the polls RUNNING, RUNNING, SUCCEEDED take 3 waits, the polls RUNNING,
  SUCCEEDED take 2, and the polls RUNNING, FAILED throw with the status \<^verbatim>\<open>FAILED\<close> after 2.
\<close>

theorem one_delay_per_poll:
  assumes token: "orString apiToken (envToken p) = Some tok" "tok \<noteq> []"
    and started: "\<And>r. startRun p r = StartOk runId dataset"
    and polls: "pollAnswers p = map PollStatus (pre @ [t]) @ rest"
    and running: "\<forall>s \<in> set pre. nonTerminal s"
    and ended: "\<not> nonTerminal t"
  shows "scrapeLinkedInJobs p url m apiToken actorSlug =
           Some (Suc (length pre),
                 if t = ''SUCCEEDED'' then datasetItems p
                 else Inl (Error (''Apify run failed with status: '' @ t)))"
proof -
  have "pollLoop ''RUNNING'' (pollAnswers p) 0 = Some (Suc (length pre), Inr t)"
    using pollLoop_statuses [OF running ended, of "''RUNNING''" rest 0]
    by (simp add: polls nonTerminal_def)
  then show ?thesis
    using token started by (simp add: scrapeLinkedInJobs_def Let_def)
qed

theorem one_delay_per_poll_witness:
  "scrapeLinkedInJobs
     (sampleProvider [PollStatus ''RUNNING'', PollStatus ''RUNNING'', PollStatus ''SUCCEEDED''])
     None 50 None None
   = Some (3, Inr [listingWithId ''a'' ''fair'', listingWithId ''b'' ''good''])
   \<and> scrapeLinkedInJobs (sampleProvider [PollStatus ''RUNNING'', PollStatus ''SUCCEEDED''])
     None 50 None None
   = Some (2, Inr [listingWithId ''a'' ''fair'', listingWithId ''b'' ''good''])
   \<and> scrapeLinkedInJobs (sampleProvider [PollStatus ''RUNNING'', PollStatus ''FAILED''])
     None 50 None None
   = Some (2, Inl (Error ''Apify run failed with status: FAILED''))"
proof -
  have tok: "orString None (envToken (sampleProvider ps)) = Some ''token''" "''token'' \<noteq> []" for ps
    by (simp_all add: orString_def sampleProvider_def)
  have st: "\<And>r. startRun (sampleProvider ps) r = StartOk ''run1'' ''dataset1''" for ps
    by (simp add: sampleProvider_def)
  have a: "pollAnswers (sampleProvider [PollStatus ''RUNNING'', PollStatus ''RUNNING'', PollStatus ''SUCCEEDED''])
      = map PollStatus ([''RUNNING'', ''RUNNING''] @ [''SUCCEEDED'']) @ []"
    by (simp add: sampleProvider_def)
  have b: "pollAnswers (sampleProvider [PollStatus ''RUNNING'', PollStatus ''SUCCEEDED''])
      = map PollStatus ([''RUNNING''] @ [''SUCCEEDED'']) @ []"
    by (simp add: sampleProvider_def)
  have c: "pollAnswers (sampleProvider [PollStatus ''RUNNING'', PollStatus ''FAILED''])
      = map PollStatus ([''RUNNING''] @ [''FAILED'']) @ []"
    by (simp add: sampleProvider_def)
  have r2: "\<forall>s \<in> set [''RUNNING'', ''RUNNING'']. nonTerminal s" 
    and r1: "\<forall>s \<in> set [''RUNNING'']. nonTerminal s"
    and e1: "\<not> nonTerminal ''SUCCEEDED''" and e2: "\<not> nonTerminal ''FAILED''"
    by (simp_all add: nonTerminal_def)
  from one_delay_per_poll [OF tok st a r2 e1, of None 50 None]
       one_delay_per_poll [OF tok st b r1 e1, of None 50 None]
       one_delay_per_poll [OF tok st c r1 e2, of None 50 None]
  show ?thesis by (simp add: sampleProvider_def)
qed

text \<open>
  Claim C6 as stated fails: when the observed polls are RUNNING, RUNNING, SUCCEEDED the
  adapter has waited 3 times, not 2, when it returns the items.
\<close>

theorem three_polls_counterexample:
  "map_option fst (scrapeLinkedInJobs
     (sampleProvider [PollStatus ''RUNNING'', PollStatus ''RUNNING'', PollStatus ''SUCCEEDED''])
     None 50 None None) = Some 3
   \<and> map_option fst (scrapeLinkedInJobs
     (sampleProvider [PollStatus ''RUNNING'', PollStatus ''RUNNING'', PollStatus ''SUCCEEDED''])
     None 50 None None) \<noteq> Some 2"
  by (simp add: scrapeLinkedInJobs_def sampleProvider_def orString_def nonTerminal_def)

section \<open>The request fields as numbers\<close>

lemma roundToDouble_small: "n < 2 ^ 53 \<Longrightarrow> roundToDouble n = n"
  by (simp add: roundToDouble_def)

lemma parseInt_samples:
  "parseInt ''0'' = Some 0" "parseInt ''60'' = Some 60" "parseInt ''500'' = Some 500"
  by (simp_all add: parseInt_def isWhiteSpace1_def isWhiteSpace2_def isWhiteSpace3_def
      digitValue_def roundToDouble_small)

text \<open>
  Two properties of \<^verbatim>\<open>parseInt\<close> that the model keeps: a leading no-break space (U+00A0) is
  skipped, and \<open>2 ^ 53 + 1\<close> is read as the double \<open>2 ^ 53\<close>.
\<close>

lemma parseInt_no_break_space: "parseInt ([CHR 0xC2, CHR 0xA0] @ ''42'') = Some 42"
  by (simp add: parseInt_def isWhiteSpace1_def isWhiteSpace2_def isWhiteSpace3_def
      digitValue_def roundToDouble_small)

lemma roundToDouble_tie: "roundToDouble 9007199254740993 = 9007199254740992"
proof -
  have "bitLength 9007199254740993 = 54"
    by (simp add: bitLength.simps)
  then show ?thesis
    by (simp add: roundToDouble_def Let_def)
qed

lemma parseInt_rounds: "parseInt ''9007199254740993'' = Some 9007199254740992"
  by (simp add: parseInt_def isWhiteSpace1_def isWhiteSpace2_def isWhiteSpace3_def
      digitValue_def roundToDouble_tie)

lemma threshold_samples: "thresholdOf (Some ''0'') = 60" "thresholdOf (Some ''60'') = 60"
  by (simp_all add: thresholdOf_def parseIntField_def orNumber_def parseInt_samples)

lemma pipeline_zero_threshold:
  "pipeline sv fs f (req\<lparr>scoreThreshold := Some ''0''\<rparr>) =
   pipeline sv fs f (req\<lparr>scoreThreshold := Some ''60''\<rparr>)"
  by (simp add: pipeline_def threshold_samples
      cong: option.case_cong sum.case_cong prod.case_cong)

lemma low_score_run:
  "pipeline lowScoreServices sampleFiles \<lparr>path = ''temp/cv1'', mimetype = ''application/pdf''\<rparr>
     zeroThresholdRequest =
   Some (Inr (cvData.extend sampleProfile (analyzedResponse.fields
     (arraySort compareScore (nonNull (map (scoreJob sampleCompletion sampleProfile 60)
        (fst (normalizeAll sampleUuid ''2026-01-01''
               [listingWithId ''a'' ''fair'', listingWithId ''c'' ''poor''] 0))))))))"
proof -
  have extracted: "extractText (converters lowScoreServices) sampleFiles
      ''temp/cv1'' ''application/pdf'' = Inr ''Senior Go engineer''"
    by (simp add: extractText_def readFileSync_def decode_def
        lowScoreServices_def sampleDecoders_def sampleFiles_def)
  have scrape: "scrapeLinkedInJobs (listingProvider lowScoreServices)
      (searchUrl zeroThresholdRequest) (maxItemsOf (maxJobs zeroThresholdRequest))
      (apifyToken zeroThresholdRequest) (apifyActor zeroThresholdRequest) =
      Some (1, Inr [listingWithId ''a'' ''fair'', listingWithId ''c'' ''poor''])"
    by (simp add: scrapeLinkedInJobs_def lowScoreServices_def sampleProvider_def
        zeroThresholdRequest_def sampleRequest_def orString_def nonTerminal_def)
  have prof: "generateProfile (completion lowScoreServices)
       (take 10000 ''Senior Go engineer'') = Inr sampleProfile"
    by (simp add: lowScoreServices_def sampleCompletion_def)
  have t: "thresholdOf (scoreThreshold zeroThresholdRequest) = 60"
    by (simp add: zeroThresholdRequest_def threshold_samples)
  have sv: "completion lowScoreServices = sampleCompletion"
    "uuidv4 lowScoreServices = sampleUuid" "today lowScoreServices = ''2026-01-01''"
    by (simp_all add: lowScoreServices_def)
  show ?thesis
    using extracted scrape analyze_returns [OF prof] sv
    by (simp add: pipeline_def t)
qed

lemma low_score_jobs:
  "map jobId (arraySort compareScore (nonNull (map (scoreJob sampleCompletion sampleProfile 60)
        (fst (normalizeAll sampleUuid ''2026-01-01''
               [listingWithId ''a'' ''fair'', listingWithId ''c'' ''poor''] 0))))) = [JStr ''a'']"
  "map score (arraySort compareScore (nonNull (map (scoreJob sampleCompletion sampleProfile 60)
        (fst (normalizeAll sampleUuid ''2026-01-01''
               [listingWithId ''a'' ''fair'', listingWithId ''c'' ''poor''] 0))))) = [75]"
  by (simp_all add: normalizeJobData_def listingWithId_def emptyListing_def jsOr_def
      scoreJob_def createScoringPrompt_def sampleCompletion_def job.extend_def
      scoredJob.fields_def arraySort_def compareScore_def)

text \<open>
  Claim C7. The endpoint should filter with the threshold that the caller supplies, 0
  included: the page lets the caller choose 0 and then announces the jobs with a score of at
  least 0. The endpoint computes \<^verbatim>\<open>parseInt(scoreThreshold) || 60\<close>, and 0 is falsy: for the
  field \<^verbatim>\<open>0\<close> the threshold is 60, and the whole request is handled as the request with the
  field \<^verbatim>\<open>60\<close> is. On a request with the field \<^verbatim>\<open>0\<close> whose listings score 75 and 40, the
  response holds the first job only; the job scored 40, which is at least 0, is missing.
\<close>

theorem zero_threshold_replaced_by_default:
  "thresholdOf (Some ''0'') = 60
   \<and> analyzeEndpoint sv fs (req\<lparr>scoreThreshold := Some ''0''\<rparr>) =
       analyzeEndpoint sv fs (req\<lparr>scoreThreshold := Some ''60''\<rparr>)
   \<and> (\<exists>resp. analyzeEndpoint lowScoreServices sampleFiles zeroThresholdRequest =
                Some (Map.empty, [Unlinked ''temp/cv1'', Sent 200 (AnalysisBody resp)])
             \<and> map jobId (jobs resp) = [JStr ''a'']
             \<and> map score (jobs resp) = [75])"
proof -
  have same: "analyzeEndpoint sv fs (req\<lparr>scoreThreshold := Some ''0''\<rparr>) =
       analyzeEndpoint sv fs (req\<lparr>scoreThreshold := Some ''60''\<rparr>)"
    by (simp add: analyzeEndpoint_def pipeline_zero_threshold cong: option.case_cong)
  have f: "cvFile zeroThresholdRequest =
             Some \<lparr>path = ''temp/cv1'', mimetype = ''application/pdf''\<rparr>"
    by (simp add: zeroThresholdRequest_def sampleRequest_def)
  have run: "analyzeEndpoint lowScoreServices sampleFiles zeroThresholdRequest =
      Some (Map.empty, [Unlinked ''temp/cv1'', Sent 200 (AnalysisBody
        (cvData.extend sampleProfile (analyzedResponse.fields
          (arraySort compareScore (nonNull (map (scoreJob sampleCompletion sampleProfile 60)
            (fst (normalizeAll sampleUuid ''2026-01-01''
               [listingWithId ''a'' ''fair'', listingWithId ''c'' ''poor''] 0))))))))])"
    using f low_score_run
    by (simp add: analyzeEndpoint_def unlinkSync_def sampleFiles_def)
  from same run low_score_jobs threshold_samples(1) show ?thesis
    by (simp add: jobs_extend)
qed

section \<open>The cap on the item count\<close>



section \<open>Failures of the text extractor\<close>

text \<open>
  Claim C9. Whenever the converter chosen for the mime type throws, whatever the mime type
  and whatever the error, \<^verbatim>\<open>extractText\<close> throws an error with the one fixed message (in the
  source the literal ends with a full stop: ``Failed to parse CV file.''). The error of the
  converter is not part of it, and the response of the endpoint carries the fixed message
  only.
\<close>

theorem decode_failure_is_replaced:
  assumes "readFileSync fs filePath = Inr buffer"
    and "decode d mimeType buffer = Inl e"
  shows "extractText d fs filePath mimeType = Inl (Error ''Failed to parse CV file.'')
     \<and> (cvFile req = Some \<lparr>path = filePath, mimetype = mimeType\<rparr> \<and> converters sv = d \<longrightarrow>
          analyzeEndpoint sv fs req =
            Some (fs(filePath := None),
                  [Unlinked filePath, Sent 502 (ErrorBody ''Failed to parse CV file.'')]))"
proof -
  have x: "extractText d fs filePath mimeType = Inl (Error ''Failed to parse CV file.'')"
    using assms by (simp add: extractText_def)
  from assms(1) have ex: "fs filePath \<noteq> None"
    by (auto simp: readFileSync_def split: option.splits)
  then have "analyzeEndpoint sv fs req =
            Some (fs(filePath := None),
                  [Unlinked filePath, Sent 502 (ErrorBody ''Failed to parse CV file.'')])"
    if "cvFile req = Some \<lparr>path = filePath, mimetype = mimeType\<rparr>" "converters sv = d"
    using that x
    by (auto simp: analyzeEndpoint_def pipeline_def catchBlock_def existsSync_def unlinkSync_def)
  with x show ?thesis by blast
qed

theorem decode_failure_is_replaced_witness:
  "extractText (sampleDecoders (Inl (Error ''bad XRef entry''))) sampleFiles ''temp/cv1''
      ''application/pdf'' = Inl (Error ''Failed to parse CV file.'')
   \<and> analyzeEndpoint (sampleServices (Inl (Error ''bad XRef entry''))) sampleFiles sampleRequest =
       Some (sampleFiles(''temp/cv1'' := None),
             [Unlinked ''temp/cv1'', Sent 502 (ErrorBody ''Failed to parse CV file.'')])"
proof -
  have r: "readFileSync sampleFiles ''temp/cv1'' = Inr ''%PDF-1.4''"
    by (simp add: readFileSync_def sampleFiles_def)
  have d: "decode (sampleDecoders (Inl (Error ''bad XRef entry''))) ''application/pdf'' ''%PDF-1.4''
             = Inl (Error ''bad XRef entry'')"
    by (simp add: decode_def sampleDecoders_def)
  from decode_failure_is_replaced [OF r d, of sampleRequest "sampleServices (Inl (Error ''bad XRef entry''))"]
  show ?thesis by (simp add: sampleRequest_def sampleServices_def)
qed

section \<open>Removal of the uploaded file\<close>

lemma catchBlock_removes:
  "\<exists>b. catchBlock fs f e =
     (fs(path f := None),
      (if fs (path f) = None then [] else [Unlinked (path f)]) @ [Sent 502 b])"
  by (auto simp: catchBlock_def existsSync_def unlinkSync_def)

text \<open>
  Claim C10. For a request with an uploaded CV file, whenever the handler responds, with
  200 after a successful analysis or with 502 after a failure of any step, the temporary
  file is no longer in the file system and nothing else in the file system has changed. The
  removal, when the file was still there, is the event just before the response, and the
  response is the last event.
\<close>

theorem upload_removed_before_response:
  assumes "cvFile req = Some f"
    and "analyzeEndpoint sv fs req = Some (fs', evs)"
  shows "fs' = fs(path f := None) \<and> fs' (path f) = None
     \<and> (\<exists>status b. (status = 200 \<or> status = 502) \<and>
           evs = (if fs (path f) = None then [] else [Unlinked (path f)]) @ [Sent status b])"
proof (cases "pipeline sv fs f req")
  case None
  with assms show ?thesis by (simp add: analyzeEndpoint_def)
next
  case (Some r)
  show ?thesis
  proof (cases r)
    case (Inl e)
    with Some assms have "catchBlock fs f e = (fs', evs)"
      by (simp add: analyzeEndpoint_def)
    with catchBlock_removes [of fs f e] show ?thesis by auto
  next
    case (Inr result)
    show ?thesis
    proof (cases "fs (path f)")
      case None
      with Some Inr assms
      have "catchBlock fs f (Error ''ENOENT: no such file or directory'') = (fs', evs)"
        by (simp add: analyzeEndpoint_def unlinkSync_def)
      with catchBlock_removes [of fs f "Error ''ENOENT: no such file or directory''"]
      show ?thesis by auto
    next
      case (Some b)
      with \<open>pipeline sv fs f req = Some r\<close> Inr assms show ?thesis
        by (auto simp: analyzeEndpoint_def unlinkSync_def)
    qed
  qed
qed

text \<open>
  One request that succeeds and one whose CV cannot be parsed: in both the file is removed
  and then the response is sent.
\<close>

theorem upload_removed_before_response_witness:
  "(\<exists>b. analyzeEndpoint (sampleServices (Inr ''Senior Go engineer'')) sampleFiles sampleRequest =
      Some (Map.empty, [Unlinked ''temp/cv1'', Sent 200 b]))
   \<and> (\<exists>b. analyzeEndpoint (sampleServices (Inl (Error ''bad XRef entry''))) sampleFiles sampleRequest =
      Some (Map.empty, [Unlinked ''temp/cv1'', Sent 502 b]))"
proof -
  have f: "cvFile sampleRequest = Some \<lparr>path = ''temp/cv1'', mimetype = ''application/pdf''\<rparr>"
    by (simp add: sampleRequest_def)
  have rm: "sampleFiles(''temp/cv1'' := None) = Map.empty"
    by (simp add: sampleFiles_def)
  have bad: "analyzeEndpoint (sampleServices (Inl (Error ''bad XRef entry''))) sampleFiles sampleRequest =
      Some (Map.empty, [Unlinked ''temp/cv1'', Sent 502 (ErrorBody ''Failed to parse CV file.'')])"
    by (simp add: analyzeEndpoint_def pipeline_def extractText_def readFileSync_def decode_def
        sampleServices_def sampleDecoders_def sampleFiles_def sampleRequest_def catchBlock_def
        existsSync_def unlinkSync_def)
  have extracted: "extractText (converters (sampleServices (Inr ''Senior Go engineer''))) sampleFiles
      ''temp/cv1'' ''application/pdf'' = Inr ''Senior Go engineer''"
    by (simp add: extractText_def readFileSync_def decode_def
        sampleServices_def sampleDecoders_def sampleFiles_def)
  have scrape: "scrapeLinkedInJobs (listingProvider (sampleServices (Inr ''Senior Go engineer'')))
      (searchUrl sampleRequest) (maxItemsOf (maxJobs sampleRequest)) (apifyToken sampleRequest)
      (apifyActor sampleRequest) =
      Some (1, Inr [listingWithId ''a'' ''fair'', listingWithId ''b'' ''good''])"
    by (simp add: scrapeLinkedInJobs_def sampleServices_def sampleProvider_def sampleRequest_def
        orString_def nonTerminal_def)
  have prof: "generateProfile (completion (sampleServices (Inr ''Senior Go engineer'')))
       (take 10000 ''Senior Go engineer'') = Inr sampleProfile"
    by (simp add: sampleServices_def sampleCompletion_def)
  have "\<exists>resp. pipeline (sampleServices (Inr ''Senior Go engineer'')) sampleFiles
      \<lparr>path = ''temp/cv1'', mimetype = ''application/pdf''\<rparr> sampleRequest = Some (Inr resp)"
    using extracted scrape analyze_returns [OF prof]
    by (simp add: pipeline_def)
  then obtain resp where "pipeline (sampleServices (Inr ''Senior Go engineer'')) sampleFiles
      \<lparr>path = ''temp/cv1'', mimetype = ''application/pdf''\<rparr> sampleRequest = Some (Inr resp)"
    by blast
  then have good: "analyzeEndpoint (sampleServices (Inr ''Senior Go engineer'')) sampleFiles sampleRequest =
      Some (Map.empty, [Unlinked ''temp/cv1'', Sent 200 (AnalysisBody resp)])"
    using f by (simp add: analyzeEndpoint_def unlinkSync_def sampleFiles_def)
  from upload_removed_before_response [OF f good] upload_removed_before_response [OF f bad]
    good bad
  show ?thesis by blast
qed

end
